theory Spec2Isabelle
  imports Main "HOL-Library.Multiset"
begin

section \<open>Data model\<close>

text \<open>
  The backend of the blog (the Express application, with the two Mongoose schemas
  \<open>User\<close> and \<open>Post\<close>) is embedded as functions from a state and a request to a new
  state and a reply. The state holds the two collections and the upload directory.
  An \<open>ObjectId\<close> is represented by its hexadecimal string, which is what
  \<open>toString()\<close> returns and what the token payload carries after JSON serialisation.
  Request bodies are well-formed: every field the handler destructures is a string.
\<close>

type_synonym objectId = string

text \<open>
  The field \<open>userName\<close> occurs in the request body, in the user document, in the token
  payload and in the populated author of a post; the records below share it by
  extension, so that the source's name is kept everywhere.
\<close>

record named =
  userName :: string

text \<open>The body \<open>{ userName, password }\<close> of POST /register and POST /login.\<close>

record credentials = named +
  password :: string

text \<open>A document of the \<open>User\<close> collection: \<open>_id\<close>, \<open>userName\<close>, the hashed \<open>password\<close>.\<close>

record user = credentials +
  user_id :: objectId

text \<open>The token payload \<open>{ userId, userName }\<close> handed to \<open>jwt.sign\<close>.\<close>

record claim = named +
  userId :: objectId

text \<open>The populated author \<open>{ _id, userName }\<close> of a post.\<close>

record author_ref = named +
  ref_id :: objectId

text \<open>The body \<open>{ title, summary, content }\<close> of POST /post and PUT /post/:id.\<close>

record post_fields =
  title :: string
  summary :: string
  content :: string

text \<open>
  A document of the \<open>Post\<close> collection. \<open>cover\<close> is \<open>null\<close> when no file was uploaded;
  \<open>author\<close> is not required by the schema; \<open>timestamps: true\<close> adds \<open>createdAt\<close> and
  \<open>updatedAt\<close>. The type parameter is the author: an \<open>ObjectId\<close> in the store, an
  \<open>author_ref\<close> after \<open>populate("author", "userName")\<close>.
\<close>

record 'a post = post_fields +
  post_id :: objectId
  cover :: "string option"
  author :: "'a option"
  createdAt :: nat
  updatedAt :: nat

text \<open>\<open>req.file\<close> as multer leaves it.\<close>

record upload =
  originalname :: string
  path :: string

record 'b request =
  body :: 'b
  token :: "string option"
  req_file :: "upload option"
  params_id :: string

record cookie =
  cookie_name :: string
  cookie_value :: string
  httpOnly :: bool
  sameSite :: "string option"

datatype json =
    JError string
  | JMessage string
  | JString string
  | JIdName objectId string
  | JClaim claim
  | JPost "objectId post"
  | JPopulated "author_ref post option"
  | JPosts "author_ref post list"

record response =
  status :: nat
  payload :: json
  cookies :: "cookie list"

text \<open>
  What a library call throws. A throw inside a \<open>try\<close> block becomes the reply of the
  \<open>catch\<close> block; a throw outside every \<open>try\<close> block leaves the request without a reply.
\<close>

datatype exn = ValidationError | DuplicateKey | CastError | ENOENT | TypeError

datatype reply = Reply response | Uncaught exn

record state =
  users :: "user list"
  posts :: "objectId post list"
  files :: "string \<rightharpoonup> string"

text \<open>
  The libraries and the surroundings of one request: the secret of the environment, the
  token library, the password hasher with the salt it generates, the rule by which
  Mongoose casts a string to an \<open>ObjectId\<close>, the \<open>_id\<close> generated for a new document, and
  the clock. \<open>jwt_sign\<close> and \<open>jwt_verify\<close> return \<open>None\<close> where the callback receives \<open>err\<close>.
\<close>

record env =
  secret :: string
  jwt_sign :: "claim \<Rightarrow> string \<Rightarrow> string option"
  jwt_verify :: "string \<Rightarrow> string \<Rightarrow> claim option"
  genSalt :: string
  bcrypt_hash :: "string \<Rightarrow> string \<Rightarrow> string"
  bcrypt_compare :: "string \<Rightarrow> string \<Rightarrow> bool"
  isValidObjectId :: "string \<Rightarrow> bool"
  new_id :: objectId
  now :: nat

section \<open>Replies\<close>

definition json_reply :: "nat \<Rightarrow> json \<Rightarrow> reply" where
  "json_reply st j = Reply \<lparr>status = st, payload = j, cookies = []\<rparr>"

text \<open>
  \<open>!token\<close>: an absent cookie and the empty string are both falsy. \<open>truthy\<close> gives the
  cookie's value when the test lets it through.
\<close>

definition truthy :: "string option \<Rightarrow> string option" where
  "truthy t = (case t of None \<Rightarrow> None | Some s \<Rightarrow> (if s = [] then None else Some s))"

section \<open>The collections\<close>

text \<open>
  \<open>User.create\<close>: the \<open>required\<close> validators of both fields reject the empty string,
  and the unique index on \<open>userName\<close> rejects a second document with the same name.
  The option \<open>min\<close> of the schema is a validator of numbers; on the string path
  \<open>userName\<close> it checks nothing.
\<close>

definition User_create :: "env \<Rightarrow> user list \<Rightarrow> credentials \<Rightarrow> exn + (user \<times> user list)" where
  "User_create e us c =
     (if userName c = [] then Inl ValidationError
      else if password c = [] then Inl ValidationError
      else if list_ex (\<lambda>u. userName u = userName c) us then Inl DuplicateKey
      else (let userDoc = \<lparr>userName = userName c, password = password c, user_id = new_id e\<rparr>
            in Inr (userDoc, us @ [userDoc])))"

definition User_findOne :: "user list \<Rightarrow> string \<Rightarrow> user option" where
  "User_findOne us n = find (\<lambda>u. userName u = n) us"

text \<open>\<open>Post.findById\<close>: a string that is no \<open>ObjectId\<close> makes the query throw.\<close>

definition Post_findById :: "env \<Rightarrow> objectId post list \<Rightarrow> string \<Rightarrow> exn + objectId post option" where
  "Post_findById e ps i =
     (if isValidObjectId e i then Inr (find (\<lambda>p. post_id p = i) ps) else Inl CastError)"

text \<open>\<open>Post.create\<close>: the author is cast to an \<open>ObjectId\<close>; both timestamps are set.\<close>

definition Post_create ::
  "env \<Rightarrow> objectId post list \<Rightarrow> post_fields \<Rightarrow> string option \<Rightarrow> string
     \<Rightarrow> exn + (objectId post \<times> objectId post list)" where
  "Post_create e ps b cov a =
     (if isValidObjectId e a then
        (let postDoc = \<lparr>title = title b, summary = summary b, content = content b,
                        post_id = new_id e, cover = cov, author = Some a,
                        createdAt = now e, updatedAt = now e\<rparr>
         in Inr (postDoc, ps @ [postDoc]))
      else Inl CastError)"

text \<open>\<open>post.save()\<close>: the document with this \<open>_id\<close> is replaced.\<close>

fun save :: "objectId post \<Rightarrow> objectId post list \<Rightarrow> objectId post list" where
  "save p [] = []"
| "save p (q # qs) = (if post_id q = post_id p then p # qs else q # save p qs)"

text \<open>\<open>populate("author", "userName")\<close>: the referenced user, or \<open>null\<close> when there is none.\<close>

definition populate :: "user list \<Rightarrow> objectId post \<Rightarrow> author_ref post" where
  "populate us p =
     \<lparr>title = title p, summary = summary p, content = content p,
      post_id = post_id p, cover = cover p,
      author = (case author p of
                  None \<Rightarrow> None
                | Some a \<Rightarrow> map_option (\<lambda>u. \<lparr>userName = userName u, ref_id = user_id u\<rparr>)
                             (find (\<lambda>u. user_id u = a) us)),
      createdAt = createdAt p, updatedAt = updatedAt p\<rparr>"

section \<open>The upload directory\<close>

text \<open>\<open>fs.renameSync\<close> throws when the old path does not exist.\<close>

definition renameSync :: "(string \<rightharpoonup> string) \<Rightarrow> string \<Rightarrow> string \<Rightarrow> exn + (string \<rightharpoonup> string)" where
  "renameSync fs old new =
     (case fs old of None \<Rightarrow> Inl ENOENT | Some c \<Rightarrow> Inr ((fs(old := None))(new \<mapsto> c)))"

text \<open>
  \<open>parts = originalname.split("."); ext = parts[parts.length - 1]\<close>: what follows the
  last dot, the whole name when it has no dot.
\<close>

definition ext_of :: "string \<Rightarrow> string" where
  "ext_of n = rev (takeWhile (\<lambda>c. c \<noteq> CHR ''.'') (rev n))"

definition newPath_of :: "upload \<Rightarrow> string" where
  "newPath_of f = path f @ ''.'' @ ext_of (originalname f)"

text \<open>\<open>s.replace(pat, "")\<close> with a string pattern: the first occurrence is removed.\<close>

fun remove_first :: "string \<Rightarrow> string \<Rightarrow> string" where
  "remove_first pat [] = []"
| "remove_first pat (c # cs) =
     (if take (length pat) (c # cs) = pat then drop (length pat) (c # cs)
      else c # remove_first pat cs)"

definition relative :: "string \<Rightarrow> string" where
  "relative p = remove_first ''uploads/'' p"

section \<open>The handlers\<close>

text \<open>POST /register.\<close>

definition register :: "env \<Rightarrow> state \<Rightarrow> credentials request \<Rightarrow> state \<times> reply" where
  "register e s req =
     (let hashedPassword = bcrypt_hash e (password (body req)) (genSalt e) in
      case User_create e (users s) \<lparr>userName = userName (body req), password = hashedPassword\<rparr> of
        Inl err \<Rightarrow> (s, json_reply 400 (JError ''Error registering user''))
      | Inr (userDoc, us) \<Rightarrow>
          (case jwt_sign e \<lparr>userName = userName userDoc, userId = user_id userDoc\<rparr> (secret e) of
             None \<Rightarrow> (s\<lparr>users := us\<rparr>, json_reply 500 (JError ''Internal server error''))
           | Some tok \<Rightarrow>
               (s\<lparr>users := us\<rparr>,
                Reply \<lparr>status = 200,
                       payload = JIdName (user_id userDoc) (userName userDoc),
                       cookies = [\<lparr>cookie_name = ''token'', cookie_value = tok,
                                   httpOnly = True, sameSite = Some ''strict''\<rparr>]\<rparr>)))"

text \<open>POST /login. \<open>res.cookie("token", token)\<close> passes no options.\<close>

definition login :: "env \<Rightarrow> state \<Rightarrow> credentials request \<Rightarrow> state \<times> reply" where
  "login e s req =
     (case User_findOne (users s) (userName (body req)) of
        None \<Rightarrow> (s, json_reply 400 (JError ''User not found''))
      | Some userDoc \<Rightarrow>
          (if bcrypt_compare e (password (body req)) (password userDoc) then
             (case jwt_sign e \<lparr>userName = userName userDoc, userId = user_id userDoc\<rparr> (secret e) of
                None \<Rightarrow> (s, json_reply 500 (JError ''Internal server error''))
              | Some tok \<Rightarrow>
                  (s,
                   Reply \<lparr>status = 200,
                          payload = JIdName (user_id userDoc) (userName (body req)),
                          cookies = [\<lparr>cookie_name = ''token'', cookie_value = tok,
                                      httpOnly = False, sameSite = None\<rparr>]\<rparr>))
           else (s, json_reply 400 (JError ''Invalid password''))))"

text \<open>GET /profile.\<close>

definition profile :: "env \<Rightarrow> state \<Rightarrow> 'b request \<Rightarrow> state \<times> reply" where
  "profile e s req =
     (case truthy (token req) of
        None \<Rightarrow> (s, json_reply 403 (JError ''Token is missing''))
      | Some tok \<Rightarrow>
          (case jwt_verify e tok (secret e) of
             None \<Rightarrow> (s, json_reply 403 (JError ''Invalid token''))
           | Some info \<Rightarrow> (s, json_reply 200 (JClaim info))))"

text \<open>POST /logout.\<close>

definition logout :: "state \<Rightarrow> 'b request \<Rightarrow> state \<times> reply" where
  "logout s req =
     (s, Reply \<lparr>status = 200, payload = JString ''ok'',
                cookies = [\<lparr>cookie_name = ''token'', cookie_value = [],
                            httpOnly = False, sameSite = None\<rparr>]\<rparr>)"

text \<open>
  POST /post. The missing token is thrown inside the \<open>try\<close> block, so the \<open>catch\<close> block
  answers it. The callback of \<open>jwt.verify\<close> is an \<open>async\<close> function: what it throws
  (the rename, the creation of the document) is not caught by that block.
\<close>

definition create_post :: "env \<Rightarrow> state \<Rightarrow> post_fields request \<Rightarrow> state \<times> reply" where
  "create_post e s req =
     (case truthy (token req) of
        None \<Rightarrow> (s, json_reply 500 (JError ''Internal server error''))
      | Some tok \<Rightarrow>
           (case jwt_verify e tok (secret e) of
              None \<Rightarrow> (s, json_reply 403 (JError ''Invalid token''))
            | Some info \<Rightarrow>
                (case (case req_file req of
                         None \<Rightarrow> Inr (files s, None)
                       | Some f \<Rightarrow>
                           (case renameSync (files s) (path f) (newPath_of f) of
                              Inl x \<Rightarrow> Inl x
                            | Inr fs \<Rightarrow> Inr (fs, Some (relative (newPath_of f))))) of
                   Inl x \<Rightarrow> (s, Uncaught x)
                 | Inr (fs, cov) \<Rightarrow>
                     (case Post_create e (posts s) (body req) cov (userId info) of
                        Inl x \<Rightarrow> (s\<lparr>files := fs\<rparr>, Uncaught x)
                      | Inr (postDoc, ps) \<Rightarrow>
                          (s\<lparr>posts := ps, files := fs\<rparr>, json_reply 200 (JPost postDoc))))))"

text \<open>
  GET /post: \<open>sort({ createdAt: -1 })\<close>, then \<open>limit(20)\<close>, then the population of the
  authors. The database does not fix the order of posts with equal \<open>createdAt\<close>; here
  the later document comes first.
\<close>

definition list_posts :: "state \<Rightarrow> state \<times> reply" where
  "list_posts s =
     (s, json_reply 200
           (JPosts (map (populate (users s)) (take 20 (rev (sort_key createdAt (posts s)))))))"

text \<open>GET /post/:id.\<close>

definition get_post :: "env \<Rightarrow> state \<Rightarrow> 'b request \<Rightarrow> state \<times> reply" where
  "get_post e s req =
     (if params_id req = [] then (s, json_reply 404 (JMessage ''Post not found''))
      else (case Post_findById e (posts s) (params_id req) of
              Inl x \<Rightarrow> (s, json_reply 500 (JMessage ''Server error''))
            | Inr postDoc \<Rightarrow> (s, json_reply 200 (JPopulated (map_option (populate (users s)) postDoc)))))"

text \<open>
  The ownership check of PUT /post/:id:
  \<open>post.author.toString() !== info.userId\<close>. Calling \<open>toString\<close> on an absent author throws.
\<close>

datatype decision = Allow | Forbidden

definition authorize :: "claim \<Rightarrow> objectId post \<Rightarrow> exn + decision" where
  "authorize info p =
     (case author p of
        None \<Rightarrow> Inl TypeError
      | Some a \<Rightarrow> (if a \<noteq> userId info then Inr Forbidden else Inr Allow))"

text \<open>
  The assignments of PUT /post/:id before \<open>post.save()\<close>. The timestamps plugin sets
  \<open>updatedAt\<close> when the document was modified.
\<close>

definition assign_fields :: "env \<Rightarrow> objectId post \<Rightarrow> post_fields \<Rightarrow> string option \<Rightarrow> objectId post" where
  "assign_fields e p b newPath =
     (let q = p\<lparr>title := title b, summary := summary b, content := content b,
                 cover := (case newPath of None \<Rightarrow> cover p | Some n \<Rightarrow> Some (relative n))\<rparr>
      in if q = p then p else q\<lparr>updatedAt := now e\<rparr>)"

text \<open>
  PUT /post/:id. The uploaded file is renamed first, outside every \<open>try\<close> block; the
  token is read after that. The lookup, the ownership check and the update are inside
  the \<open>try\<close> block of the callback.
\<close>

definition update_post :: "env \<Rightarrow> state \<Rightarrow> post_fields request \<Rightarrow> state \<times> reply" where
  "update_post e s req =
     (case (case req_file req of
              None \<Rightarrow> Inr (files s, None)
            | Some f \<Rightarrow>
                (case renameSync (files s) (path f) (newPath_of f) of
                   Inl x \<Rightarrow> Inl x
                 | Inr fs \<Rightarrow> Inr (fs, Some (newPath_of f)))) of
        Inl x \<Rightarrow> (s, Uncaught x)
      | Inr (fs, newPath) \<Rightarrow>
          (let s1 = s\<lparr>files := fs\<rparr> in
           case truthy (token req) of
             None \<Rightarrow> (s1, json_reply 403 (JError ''Token is missing''))
           | Some tok \<Rightarrow>
                (case jwt_verify e tok (secret e) of
                   None \<Rightarrow> (s1, json_reply 403 (JError ''Invalid token''))
                 | Some info \<Rightarrow>
                     (case Post_findById e (posts s1) (params_id req) of
                        Inl x \<Rightarrow> (s1, json_reply 500 (JError ''Internal server error''))
                      | Inr None \<Rightarrow> (s1, json_reply 404 (JError ''Post not found''))
                      | Inr (Some p) \<Rightarrow>
                          (case authorize info p of
                             Inl x \<Rightarrow> (s1, json_reply 500 (JError ''Internal server error''))
                           | Inr Forbidden \<Rightarrow>
                               (s1, json_reply 403 (JError ''You are not the author of this post''))
                           | Inr Allow \<Rightarrow>
                               (let updatedPost = assign_fields e p (body req) newPath
                                in (s1\<lparr>posts := save updatedPost (posts s1)\<rparr>,
                                    json_reply 200 (JPost updatedPost))))))))"

text \<open>
  Whether the uploaded file that \<open>req.file\<close> names is in the upload directory (multer
  has stored it there before the handler runs).
\<close>

definition upload_present :: "state \<Rightarrow> 'b request \<Rightarrow> bool" where
  "upload_present s req =
     (case req_file req of None \<Rightarrow> True | Some f \<Rightarrow> files s (path f) \<noteq> None)"

text \<open>
  The stores that the handlers produce: from empty collections, by multer storing an
  upload and by the handlers that write to the store. (The other handlers return the
  state they received.)
\<close>

inductive reachable :: "state \<Rightarrow> bool" where
  start: "users s = [] \<Longrightarrow> posts s = [] \<Longrightarrow> reachable s"
| stored: "reachable s \<Longrightarrow> reachable (s\<lparr>files := fs\<rparr>)"
| registered: "reachable s \<Longrightarrow> reachable (fst (register e s req))"
| logged_in: "reachable s \<Longrightarrow> reachable (fst (login e s req))"
| created: "reachable s \<Longrightarrow> reachable (fst (create_post e s req))"
| updated: "reachable s \<Longrightarrow> reachable (fst (update_post e s req))"

section \<open>The session token codec\<close>

text \<open>
  The handlers call \<open>jwt.sign\<close> and \<open>jwt.verify\<close> of the jsonwebtoken package, whose code
  is not among the sources; in the handlers above they are the fields \<open>jwt_sign\<close> and
  \<open>jwt_verify\<close> of the environment. The codec below follows section 4.1 of the
  specification. The signature primitive is a parameter \<open>mac\<close> (key, then message). The
  specification fixes no wire format and asks only that distinct claims have distinct
  encodings; a length-prefixed framing is used for both the claim and the token.
\<close>

datatype token_error = InvalidToken

text \<open>
  Modelled from the spec: the compact encoding of two strings in one (the wire format of
  the jsonwebtoken package is missing). The first string is preceded by its length in
  unary and a separator.
\<close>

definition pack :: "string \<Rightarrow> string \<Rightarrow> string" where
  "pack a b = replicate (length a) (CHR ''1'') @ CHR ''0'' # a @ b"

text \<open>
  Modelled from the spec: the decoding of \<open>pack\<close> (missing with the package); \<open>None\<close> on a
  malformed encoding.
\<close>

definition unpack :: "string \<Rightarrow> (string \<times> string) option" where
  "unpack t =
     (let n = length (takeWhile (\<lambda>c. c = CHR ''1'') t) in
      case drop n t of
        [] \<Rightarrow> None
      | c # r \<Rightarrow> (if length r < n then None else Some (take n r, drop n r)))"

text \<open>Modelled from the spec: the serialisation of the claim (missing with the package).\<close>

definition serialize :: "claim \<Rightarrow> string" where
  "serialize c = pack (userId c) (userName c)"

text \<open>Modelled from the spec: the parsing of a serialised claim (missing with the package).\<close>

definition deserialize :: "string \<Rightarrow> claim option" where
  "deserialize p =
     (case unpack p of
        None \<Rightarrow> None
      | Some (i, n) \<Rightarrow> Some \<lparr>userName = n, userId = i\<rparr>)"

text \<open>
  Modelled from the spec: \<open>issue(claim, secretKey)\<close> (\<open>jwt.sign\<close> is missing) serialises the
  claim, computes the signature over it with the key and returns the encoded string.
\<close>

definition issue :: "(string \<Rightarrow> string \<Rightarrow> string) \<Rightarrow> claim \<Rightarrow> string \<Rightarrow> string" where
  "issue mac c k = (let p = serialize c in pack p (mac k p))"

text \<open>
  Modelled from the spec: \<open>verify(token, secretKey)\<close> (\<open>jwt.verify\<close> is missing) decodes the
  token, recomputes the signature over the embedded claim with the key and compares;
  it fails with \<open>InvalidToken\<close> when the signature does not match or the encoding is
  malformed.
\<close>

definition verify :: "(string \<Rightarrow> string \<Rightarrow> string) \<Rightarrow> string \<Rightarrow> string \<Rightarrow> token_error + claim" where
  "verify mac t k =
     (case unpack t of
        None \<Rightarrow> Inl InvalidToken
      | Some (p, sg) \<Rightarrow>
          (if sg = mac k p then
             (case deserialize p of None \<Rightarrow> Inl InvalidToken | Some c \<Rightarrow> Inr c)
           else Inl InvalidToken))"

section \<open>A concrete environment and store\<close>

text \<open>
  The examples below run the handlers in a small environment: the codec above with a
  keyed tag in place of the signature, a hasher that prefixes the salt, and the strings
  of 24 hexadecimal digits as \<open>ObjectId\<close>s.
\<close>

definition tag :: "string \<Rightarrow> string \<Rightarrow> string" where
  "tag k p = k @ p"

definition is_object_id :: "string \<Rightarrow> bool" where
  "is_object_id i = (length i = 24 \<and> list_all (\<lambda>c. c \<in> set ''0123456789abcdef'') i)"

definition env0 :: env where
  "env0 =
     \<lparr>secret = ''k'',
      jwt_sign = (\<lambda>c k. Some (issue tag c k)),
      jwt_verify = (\<lambda>t k. case verify tag t k of Inl x \<Rightarrow> None | Inr c \<Rightarrow> Some c),
      genSalt = ''s'',
      bcrypt_hash = (\<lambda>pw salt. salt @ pw),
      bcrypt_compare = (\<lambda>pw h. h = ''s'' @ pw),
      isValidObjectId = is_object_id,
      new_id = ''0000000000000000000000f0'',
      now = 50\<rparr>"

definition alice :: user where
  "alice = \<lparr>userName = ''alice'', password = ''spw1'', user_id = ''0000000000000000000000a1''\<rparr>"

definition bob :: user where
  "bob = \<lparr>userName = ''bob'', password = ''spw2'', user_id = ''0000000000000000000000b2''\<rparr>"

definition post1 :: "objectId post" where
  "post1 = \<lparr>title = ''T1'', summary = ''S1'', content = ''C1'',
            post_id = ''0000000000000000000000c1'', cover = None, author = Some ''0000000000000000000000a1'',
            createdAt = 10, updatedAt = 10\<rparr>"

definition post2 :: "objectId post" where
  "post2 = \<lparr>title = ''T2'', summary = ''S2'', content = ''C2'',
            post_id = ''0000000000000000000000c2'', cover = None, author = Some ''0000000000000000000000b2'',
            createdAt = 30, updatedAt = 30\<rparr>"

definition post3 :: "objectId post" where
  "post3 = \<lparr>title = ''T3'', summary = ''S3'', content = ''C3'',
            post_id = ''0000000000000000000000c3'', cover = None, author = Some ''0000000000000000000000a1'',
            createdAt = 20, updatedAt = 20\<rparr>"

definition st0 :: state where
  "st0 = \<lparr>users = [alice, bob], posts = [post1, post2, post3],
          files = [''uploads/t1'' \<mapsto> ''img'']\<rparr>"

definition claim_of :: "user \<Rightarrow> claim" where
  "claim_of u = \<lparr>userName = userName u, userId = user_id u\<rparr>"

definition request0 :: "post_fields request" where
  "request0 = \<lparr>body = \<lparr>title = ''New'', summary = ''S'', content = ''C''\<rparr>,
               token = None, req_file = None, params_id = ''0000000000000000000000c1''\<rparr>"

section \<open>The codec round-trips\<close>

lemma takeWhile_ones:
  "takeWhile (\<lambda>c. c = CHR ''1'') (replicate n (CHR ''1'') @ CHR ''0'' # r) = replicate n (CHR ''1'')"
  by (induction n) simp_all

lemma unpack_pack: "unpack (pack a b) = Some (a, b)"
  by (simp add: unpack_def pack_def takeWhile_ones)

lemma deserialize_serialize: "deserialize (serialize c) = Some c"
  by (simp add: deserialize_def serialize_def unpack_pack)

lemma verify_issue: "verify mac (issue mac c k) k = Inr c"
  by (simp add: verify_def issue_def Let_def unpack_pack deserialize_serialize)

lemma issue_not_empty: "issue mac c k \<noteq> []"
  by (simp add: issue_def Let_def pack_def)

lemma truthy_issue: "truthy (Some (issue mac c k)) = Some (issue mac c k)"
  by (simp add: truthy_def issue_not_empty)

lemma env0_verify_issue: "jwt_verify env0 (issue tag c (secret env0)) (secret env0) = Some c"
  by (simp add: env0_def verify_issue)

text \<open>
  With this codec behind \<open>jwt.sign\<close> and \<open>jwt.verify\<close>, the cookie that a successful
  POST /register sets is accepted by GET /profile, which answers with the identity
  that was signed.
\<close>

lemma register_then_profile:
  assumes sign: "jwt_sign e = (\<lambda>c k. Some (issue mac c k))"
    and ver: "jwt_verify e = (\<lambda>t k. case verify mac t k of Inl x \<Rightarrow> None | Inr c \<Rightarrow> Some c)"
    and reg: "register e s req = (s', Reply r)"
    and ok: "status r = 200"
  shows "\<exists>c. cookies r = [c] \<and> cookie_name c = ''token''
           \<and> profile e s' (req'\<lparr>token := Some (cookie_value c)\<rparr>)
               = (s', json_reply 200 (JClaim \<lparr>userName = userName (body req), userId = new_id e\<rparr>))"
  using reg ok
  by (auto simp: register_def User_create_def Let_def json_reply_def sign ver profile_def
        truthy_issue verify_issue split: if_splits)

text \<open>
  Claim C1. For every claim \<open>c = {userId, userName}\<close>, every key \<open>k\<close> and every signature
  primitive, verifying under \<open>k\<close> the token issued for \<open>c\<close> under \<open>k\<close> succeeds and returns
  \<open>c\<close>. The codec is the one modelled from section 4.1 of the specification.
\<close>

theorem issue_verify_roundtrip: "verify mac (issue mac c k) k = Inr c"
  by (simp add: verify_def issue_def Let_def unpack_pack deserialize_serialize)

section \<open>Requests without a valid token\<close>

lemma profile_missing_token:
  "profile e s (req\<lparr>token := None\<rparr>) = (s, json_reply 403 (JError ''Token is missing''))"
  by (simp add: profile_def truthy_def)

lemma profile_invalid_token:
  "truthy (token req) = Some t \<Longrightarrow> jwt_verify e t (secret e) = None
   \<Longrightarrow> profile e s req = (s, json_reply 403 (JError ''Invalid token''))"
  by (simp add: profile_def)

lemma create_post_invalid_token:
  "truthy (token req) = Some t \<Longrightarrow> jwt_verify e t (secret e) = None
   \<Longrightarrow> create_post e s req = (s, json_reply 403 (JError ''Invalid token''))"
  by (simp add: create_post_def)

lemma update_post_missing_token:
  "upload_present s req \<Longrightarrow> truthy (token req) = None
   \<Longrightarrow> snd (update_post e s req) = json_reply 403 (JError ''Token is missing'')"
  by (auto simp: update_post_def upload_present_def renameSync_def Let_def split: option.splits)

lemma update_post_invalid_token:
  "upload_present s req \<Longrightarrow> truthy (token req) = Some t \<Longrightarrow> jwt_verify e t (secret e) = None
   \<Longrightarrow> snd (update_post e s req) = json_reply 403 (JError ''Invalid token'')"
  by (auto simp: update_post_def upload_present_def renameSync_def Let_def split: option.splits)

text \<open>
  Claim C3. A request to a protected endpoint without the token cookie is to fail with
  the typed error MissingToken. GET /profile and PUT /post/:id answer 403 with
  \<open>Token is missing\<close> (the lemmas above); POST /post throws that error inside its \<open>try\<close>
  block and its \<open>catch\<close> block answers every request without the cookie with 500 and
  \<open>Internal server error\<close>.
\<close>

theorem create_post_missing_token:
  "create_post e s (req\<lparr>token := None\<rparr>) = (s, json_reply 500 (JError ''Internal server error''))"
  by (simp add: create_post_def truthy_def)

section \<open>Updating a post\<close>

lemma find_save:
  "find (\<lambda>p. post_id p = i) ps = Some p \<Longrightarrow> post_id q = i
   \<Longrightarrow> find (\<lambda>p. post_id p = i) (save q ps) = Some q"
  by (induction ps) (auto split: if_splits)

lemma find_post_id: "find (\<lambda>p. post_id p = i) ps = Some p \<Longrightarrow> post_id p = i"
  by (auto simp: find_Some_iff)

lemma assign_fields_title: "title (assign_fields e p b n) = title b"
proof -
  let ?q = "p\<lparr>title := title b, summary := summary b, content := content b,
              cover := (case n of None \<Rightarrow> cover p | Some m \<Rightarrow> Some (relative m))\<rparr>"
  have t: "title ?q = title b" by simp
  show ?thesis
  proof (cases "?q = p")
    case True
    then have "assign_fields e p b n = ?q" by (simp add: assign_fields_def Let_def)
    with t show ?thesis by simp
  next
    case False
    then show ?thesis by (simp add: assign_fields_def Let_def)
  qed
qed

lemma assign_fields_fields:
  "author (assign_fields e p b n) = author p"
  "post_id (assign_fields e p b n) = post_id p"
  "createdAt (assign_fields e p b n) = createdAt p"
  by (simp_all add: assign_fields_def Let_def)

text \<open>
  Every post that the handlers store has a recorded author: POST /post records the
  \<open>userId\<close> of the token, and PUT /post/:id never assigns the field.
\<close>

lemma list_all_save: "list_all Q ps \<Longrightarrow> Q q \<Longrightarrow> list_all Q (save q ps)"
  by (induction ps) auto

lemma find_list_all: "find R ps = Some p \<Longrightarrow> list_all Q ps \<Longrightarrow> Q p"
  by (auto simp: find_Some_iff list_all_length)

lemma create_post_keeps_authors:
  assumes "list_all (\<lambda>p. author p \<noteq> None) (posts s)"
  shows "list_all (\<lambda>p. author p \<noteq> None) (posts (fst (create_post e s req)))"
  using assms
  by (auto simp: create_post_def Post_create_def Let_def split: option.splits sum.splits)

lemma update_post_keeps_authors:
  assumes "list_all (\<lambda>p. author p \<noteq> None) (posts s)"
  shows "list_all (\<lambda>p. author p \<noteq> None) (posts (fst (update_post e s req)))"
proof -
  have "list_all (\<lambda>p. author p \<noteq> None) (save (assign_fields e p b n) (posts s))"
    if "find R (posts s) = Some p" for p b n R
    using find_list_all [OF that assms] assms
    by (intro list_all_save) (simp_all add: assign_fields_fields)
  then show ?thesis
    using assms
    by (auto simp: update_post_def Post_findById_def Let_def
             split: option.splits sum.splits decision.splits if_splits)
qed

text \<open>
  Claim C4. For every post \<open>P\<close> with recorded author \<open>A\<close> and every authenticated identity
  \<open>B\<close> whose \<open>userId\<close> differs from \<open>A\<close>, the update request of \<open>B\<close> on \<open>P\<close> is answered 403
  with \<open>You are not the author of this post\<close>, the collection of posts is the same
  afterwards, and looking \<open>P\<close> up again gives \<open>P\<close> with every field as before.
\<close>

theorem update_post_forbidden:
  assumes "upload_present s req"
    and "truthy (token req) = Some t"
    and "jwt_verify e t (secret e) = Some B"
    and "Post_findById e (posts s) (params_id req) = Inr (Some P)"
    and "author P = Some A"
    and "userId B \<noteq> A"
  shows "snd (update_post e s req) = json_reply 403 (JError ''You are not the author of this post'')
       \<and> posts (fst (update_post e s req)) = posts s
       \<and> Post_findById e (posts (fst (update_post e s req))) (params_id req) = Inr (Some P)"
  using assms
  by (auto simp: update_post_def upload_present_def renameSync_def Let_def authorize_def
           split: option.splits)

theorem update_post_forbidden_witness:
  "snd (update_post env0 st0 (request0\<lparr>token := Some (issue tag (claim_of bob) (secret env0))\<rparr>))
     = json_reply 403 (JError ''You are not the author of this post'')
   \<and> posts (fst (update_post env0 st0 (request0\<lparr>token := Some (issue tag (claim_of bob) (secret env0))\<rparr>)))
     = [post1, post2, post3]"
proof -
  let ?req = "request0\<lparr>token := Some (issue tag (claim_of bob) (secret env0))\<rparr>"
  have 1: "upload_present st0 ?req" by (simp add: upload_present_def request0_def)
  have 2: "truthy (token ?req) = Some (issue tag (claim_of bob) (secret env0))"
    by (simp add: truthy_issue)
  have 3: "jwt_verify env0 (issue tag (claim_of bob) (secret env0)) (secret env0) = Some (claim_of bob)"
    by (rule env0_verify_issue)
  have 4: "Post_findById env0 (posts st0) (params_id ?req) = Inr (Some post1)"
    by (simp add: Post_findById_def env0_def st0_def request0_def post1_def is_object_id_def)
  have 5: "author post1 = Some ''0000000000000000000000a1''" by (simp add: post1_def)
  have 6: "userId (claim_of bob) \<noteq> ''0000000000000000000000a1''" by (simp add: claim_of_def bob_def)
  have 7: "posts st0 = [post1, post2, post3]" by (simp add: st0_def)
  from update_post_forbidden [OF 1 2 3 4 5 6] 7 show ?thesis by simp
qed

text \<open>
  Claim C5. For every post \<open>P\<close> with recorded author \<open>A\<close>, the update request of the
  identity \<open>A\<close> succeeds: the reply carries the updated post, which is also what the
  store holds under the same \<open>_id\<close> afterwards; its title is the title of the request
  and its author is still \<open>A\<close>.
\<close>

theorem update_post_by_author:
  assumes "upload_present s req"
    and "truthy (token req) = Some t"
    and "jwt_verify e t (secret e) = Some I"
    and "Post_findById e (posts s) (params_id req) = Inr (Some P)"
    and "author P = Some A"
    and "userId I = A"
  shows "\<exists>P'. snd (update_post e s req) = json_reply 200 (JPost P')
       \<and> Post_findById e (posts (fst (update_post e s req))) (params_id req) = Inr (Some P')
       \<and> title P' = title (body req)
       \<and> author P' = Some A
       \<and> post_id P' = post_id P"
proof -
  from assms(4) have v: "isValidObjectId e (params_id req)"
    and f: "find (\<lambda>p. post_id p = params_id req) (posts s) = Some P"
    by (auto simp: Post_findById_def split: if_splits)
  have allow: "authorize I P = Inr Allow"
    using assms(5,6) by (simp add: authorize_def)
  obtain fs n where r: "(case req_file req of
              None \<Rightarrow> Inr (files s, None)
            | Some f \<Rightarrow>
                (case renameSync (files s) (path f) (newPath_of f) of
                   Inl x \<Rightarrow> Inl x
                 | Inr fs \<Rightarrow> Inr (fs, Some (newPath_of f)))) = Inr (fs, n)"
    using assms(1) by (auto simp: upload_present_def renameSync_def split: option.splits)
  let ?P' = "assign_fields e P (body req) n"
  have id: "post_id ?P' = params_id req"
    using find_post_id [OF f] by (simp add: assign_fields_fields)
  have up: "update_post e s req =
      (s\<lparr>files := fs, posts := save ?P' (posts s)\<rparr>, json_reply 200 (JPost ?P'))"
    using assms(2,3,4) allow unfolding update_post_def r by (simp add: Let_def)
  have "Post_findById e (save ?P' (posts s)) (params_id req) = Inr (Some ?P')"
    using v find_save [OF f id] by (simp add: Post_findById_def)
  with up assms(5) find_post_id [OF f] id show ?thesis
    by (simp add: assign_fields_fields assign_fields_title)
qed

theorem update_post_by_author_witness:
  "\<exists>P'. snd (update_post env0 st0 (request0\<lparr>token := Some (issue tag (claim_of alice) (secret env0))\<rparr>))
          = json_reply 200 (JPost P')
      \<and> title P' = ''New'' \<and> author P' = Some ''0000000000000000000000a1'' \<and> post_id P' = ''0000000000000000000000c1''"
proof -
  let ?req = "request0\<lparr>token := Some (issue tag (claim_of alice) (secret env0))\<rparr>"
  have 1: "upload_present st0 ?req" by (simp add: upload_present_def request0_def)
  have 2: "truthy (token ?req) = Some (issue tag (claim_of alice) (secret env0))"
    by (simp add: truthy_issue)
  have 3: "jwt_verify env0 (issue tag (claim_of alice) (secret env0)) (secret env0) = Some (claim_of alice)"
    by (rule env0_verify_issue)
  have 4: "Post_findById env0 (posts st0) (params_id ?req) = Inr (Some post1)"
    by (simp add: Post_findById_def env0_def st0_def request0_def post1_def is_object_id_def)
  have 5: "author post1 = Some ''0000000000000000000000a1''" by (simp add: post1_def)
  have 6: "userId (claim_of alice) = ''0000000000000000000000a1''" by (simp add: claim_of_def alice_def)
  have 7: "title (body ?req) = ''New''" and 8: "post_id post1 = ''0000000000000000000000c1''"
    by (simp_all add: request0_def post1_def)
  from update_post_by_author [OF 1 2 3 4 5 6] 7 8 show ?thesis by auto
qed

section \<open>The ownership check\<close>

lemma register_posts: "posts (fst (register e s req)) = posts s"
  by (simp add: register_def Let_def split: sum.splits option.splits prod.splits)

lemma login_state: "fst (login e s req) = s"
  by (simp add: login_def split: option.splits)

text \<open>No store that the handlers produce holds a post without an author.\<close>

lemma reachable_posts_have_author:
  "reachable s \<Longrightarrow> list_all (\<lambda>p. author p \<noteq> None) (posts s)"
proof (induction rule: reachable.induct)
  case (start s)
  then show ?case by simp
next
  case (stored s fs)
  then show ?case by simp
next
  case (registered s e req)
  then show ?case by (simp add: register_posts)
next
  case (logged_in s e req)
  then show ?case by (simp add: login_state)
next
  case (created s e req)
  show ?case by (rule create_post_keeps_authors [OF created.IH])
next
  case (updated s e req)
  show ?case by (rule update_post_keeps_authors [OF updated.IH])
qed

lemma authorize_recorded_author:
  assumes "author R = Some a"
  shows "(authorize I R = Inr Allow \<longleftrightarrow> userId I = a)
       \<and> (authorize I R = Inr Forbidden \<longleftrightarrow> userId I \<noteq> a)
       \<and> (authorize I R = Inr Allow \<or> authorize I R = Inr Forbidden)"
  using assms by (auto simp: authorize_def)

lemma authorize_reachable:
  assumes "reachable s" and "R \<in> set (posts s)"
  shows "authorize I R = Inr Allow \<or> authorize I R = Inr Forbidden"
proof -
  from reachable_posts_have_author [OF assms(1)] assms(2)
  obtain a where "author R = Some a" by (auto simp: list_all_iff)
  then show ?thesis by (simp add: authorize_recorded_author)
qed




section \<open>The session cookie\<close>

lemma register_cookie:
  assumes "register e s req = (s', Reply r)" and "c \<in> set (cookies r)"
  shows "httpOnly c"
  using assms
  by (auto simp: register_def Let_def json_reply_def split: sum.splits option.splits)

lemma login_cookie:
  assumes "User_findOne (users s) (userName (body req)) = Some u"
    and "bcrypt_compare e (password (body req)) (password u)"
    and "jwt_sign e \<lparr>userName = userName u, userId = user_id u\<rparr> (secret e) = Some tok"
  shows "login e s req =
           (s, Reply \<lparr>status = 200, payload = JIdName (user_id u) (userName (body req)),
                      cookies = [\<lparr>cookie_name = ''token'', cookie_value = tok,
                                  httpOnly = False, sameSite = None\<rparr>]\<rparr>)"
  using assms by (simp add: login_def)

text \<open>
  Claim C6. Every reply that sets the session-token cookie is to set it HTTP-only.
  POST /register does (lemma \<open>register_cookie\<close>). POST /login, whose comment announces an
  HTTP-only cookie, calls \<open>res.cookie("token", token)\<close> without options: the login of
  \<open>alice\<close> with her password is answered with a token cookie that is not HTTP-only.
\<close>

theorem login_cookie_not_httpOnly:
  "login env0 st0 \<lparr>body = \<lparr>userName = ''alice'', password = ''pw1''\<rparr>,
                    token = None, req_file = None, params_id = []\<rparr>
   = (st0, Reply \<lparr>status = 200, payload = JIdName ''0000000000000000000000a1'' ''alice'',
                  cookies = [\<lparr>cookie_name = ''token'',
                              cookie_value = issue tag (claim_of alice) ''k'',
                              httpOnly = False, sameSite = None\<rparr>]\<rparr>)"
  by (simp add: login_def User_findOne_def st0_def alice_def bob_def env0_def claim_of_def)

section \<open>Effects before authentication\<close>

lemma profile_no_effect: "fst (profile e s req) = s"
  by (simp add: profile_def split: option.splits)

lemma create_post_auth_failure_no_effect:
  assumes "truthy (token req) = None
         \<or> (\<exists>t. truthy (token req) = Some t \<and> jwt_verify e t (secret e) = None)"
  shows "fst (create_post e s req) = s"
  using assms by (auto simp: create_post_def)

lemma update_post_auth_failure_collections:
  assumes "truthy (token req) = None
         \<or> (\<exists>t. truthy (token req) = Some t \<and> jwt_verify e t (secret e) = None)"
  shows "users (fst (update_post e s req)) = users s \<and> posts (fst (update_post e s req)) = posts s"
  using assms by (auto simp: update_post_def Let_def split: sum.splits option.splits)

lemma update_post_renames_before_token:
  assumes "req_file req = Some f" and "files s (path f) = Some c" and "truthy (token req) = None"
  shows "update_post e s req =
           (s\<lparr>files := ((files s)(path f := None))(newPath_of f \<mapsto> c)\<rparr>,
            json_reply 403 (JError ''Token is missing''))"
  using assms by (simp add: update_post_def renameSync_def Let_def)

text \<open>
  Claim C7. Authentication is to come before every other effect of a handler, and a
  request that fails it is to have no effect. GET /profile has none, POST /post
  renames the upload only after the token is verified, and no handler touches the users
  or the posts before that (the lemmas above). PUT /post/:id renames the uploaded file
  before it reads the cookie: the request below carries a file and no token, is
  answered 403 with \<open>Token is missing\<close>, and has moved \<open>uploads/t1\<close> to \<open>uploads/t1.png\<close>.
\<close>

theorem update_post_renames_without_token:
  "snd (update_post env0 st0
          (request0\<lparr>req_file := Some \<lparr>originalname = ''cat.png'', path = ''uploads/t1''\<rparr>\<rparr>))
     = json_reply 403 (JError ''Token is missing'')
   \<and> files st0 ''uploads/t1'' = Some ''img''
   \<and> files st0 ''uploads/t1.png'' = None
   \<and> files (fst (update_post env0 st0
          (request0\<lparr>req_file := Some \<lparr>originalname = ''cat.png'', path = ''uploads/t1''\<rparr>\<rparr>)))
        ''uploads/t1'' = None
   \<and> files (fst (update_post env0 st0
          (request0\<lparr>req_file := Some \<lparr>originalname = ''cat.png'', path = ''uploads/t1''\<rparr>\<rparr>)))
        ''uploads/t1.png'' = Some ''img''"
  by (simp add: update_post_def renameSync_def Let_def request0_def st0_def truthy_def
        newPath_of_def ext_of_def)

section \<open>Registering a name twice\<close>

text \<open>
  Claim C8, as amended. For every registration request whose \<open>userName\<close> already names a
  user, registration is answered 400 with the generic \<open>Error registering user\<close>, and the
  store is unchanged: no second user with that name is created.
\<close>

theorem register_duplicate_generic:
  assumes "list_ex (\<lambda>u. userName u = userName (body req)) (users s)"
  shows "register e s req = (s, json_reply 400 (JError ''Error registering user''))"
  using assms by (simp add: register_def User_create_def Let_def)

theorem register_duplicate_generic_witness:
  "register env0 st0 \<lparr>body = \<lparr>userName = ''alice'', password = ''other''\<rparr>,
                       token = None, req_file = None, params_id = []\<rparr>
   = (st0, json_reply 400 (JError ''Error registering user''))
   \<and> users st0 = [alice, bob]"
proof -
  let ?req = "\<lparr>body = \<lparr>userName = ''alice'', password = ''other''\<rparr>,
                       token = None, req_file = None, params_id = []\<rparr>"
  have "list_ex (\<lambda>u. userName u = userName (body ?req)) (users st0)"
    by (simp add: st0_def alice_def)
  from register_duplicate_generic [OF this, of env0] show ?thesis by (simp add: st0_def)
qed

text \<open>
  Claim C8 as stated fails: the reply to a duplicate name carries no reason of its own.
  Registering \<open>alice\<close> again and registering the empty name, which no user has and which
  the \<open>required\<close> validator rejects, get the same reply from the one \<open>catch\<close> block.
\<close>

theorem register_duplicate_not_typed:
  "snd (register env0 st0 \<lparr>body = \<lparr>userName = ''alice'', password = ''other''\<rparr>,
                            token = None, req_file = None, params_id = []\<rparr>)
     = json_reply 400 (JError ''Error registering user'')
   \<and> \<not> list_ex (\<lambda>u. userName u = []) (users st0)
   \<and> snd (register env0 st0 \<lparr>body = \<lparr>userName = [], password = ''other''\<rparr>,
                              token = None, req_file = None, params_id = []\<rparr>)
     = json_reply 400 (JError ''Error registering user'')"
  by (simp add: register_def User_create_def Let_def st0_def alice_def bob_def env0_def)

section \<open>Reading posts\<close>

lemma get_post_absent:
  assumes "params_id req \<noteq> []" and "isValidObjectId e (params_id req)"
    and "find (\<lambda>p. post_id p = params_id req) (posts s) = None"
  shows "get_post e s req = (s, json_reply 200 (JPopulated None))"
  using assms by (simp add: get_post_def Post_findById_def)

lemma update_post_absent:
  assumes "upload_present s req" and "truthy (token req) = Some t"
    and "jwt_verify e t (secret e) = Some I"
    and "isValidObjectId e (params_id req)"
    and "find (\<lambda>p. post_id p = params_id req) (posts s) = None"
  shows "snd (update_post e s req) = json_reply 404 (JError ''Post not found'')"
  using assms
  by (auto simp: update_post_def upload_present_def renameSync_def Let_def Post_findById_def
           split: option.splits)

text \<open>
  Claim C9. GET /post/:id with an id that names no post is to fail with NotFound, as
  PUT /post/:id does (lemma \<open>update_post_absent\<close>). The handler answers 404 only for an
  empty id; for the well-formed id \<open>00000000000000000000dead\<close>, which no post of the store has, it answers
  200 with the payload \<open>null\<close>.
\<close>

theorem get_post_absent_null:
  "get_post env0 st0 (request0\<lparr>params_id := ''00000000000000000000dead''\<rparr>) = (st0, json_reply 200 (JPopulated None))"
  by (simp add: get_post_def Post_findById_def env0_def is_object_id_def st0_def
        post1_def post2_def post3_def)

lemma createdAt_populate: "createdAt (populate us p) = createdAt p"
  by (simp add: populate_def)

lemma sorted_desc: "sorted_wrt (\<lambda>p q. createdAt q \<le> createdAt p) (rev (sort_key createdAt ps))"
proof -
  have "sorted (map createdAt (sort_key createdAt ps))" by (rule sorted_sort_key)
  then show ?thesis by (simp add: sorted_wrt_rev sorted_map)
qed

lemma sorted_desc_populated:
  "sorted_wrt (\<lambda>p q. createdAt q \<le> createdAt p)
     (map (populate us) (rev (sort_key createdAt ps)))"
  using sorted_desc [of ps] by (simp add: sorted_wrt_map createdAt_populate rev_map)

text \<open>
  Claim C10. For every state of the store, GET /post answers with a list \<open>r\<close> of at most
  20 posts (all of them when there are fewer), ordered by \<open>createdAt\<close> descending; \<open>r\<close>
  and the posts left out, \<open>rest\<close>, are together the posts of the store (populated), and
  no post left out was created later than a post of \<open>r\<close>.
\<close>

theorem list_posts_latest:
  "\<exists>r rest. list_posts s = (s, json_reply 200 (JPosts r))
     \<and> length r \<le> 20
     \<and> length r = min 20 (length (posts s))
     \<and> sorted_wrt (\<lambda>p q. createdAt q \<le> createdAt p) r
     \<and> mset (r @ rest) = mset (map (populate (users s)) (posts s))
     \<and> (\<forall>p\<in>set r. \<forall>q\<in>set rest. createdAt q \<le> createdAt p)"
proof -
  let ?all = "map (populate (users s)) (rev (sort_key createdAt (posts s)))"
  let ?r = "take 20 ?all" and ?rest = "drop 20 ?all"
  have srt: "sorted_wrt (\<lambda>p q. createdAt q \<le> createdAt p) (?r @ ?rest)"
    using sorted_desc_populated [of "users s" "posts s"] by simp
  have 1: "list_posts s = (s, json_reply 200 (JPosts ?r))"
    by (simp add: list_posts_def take_map)
  have 2: "length ?r = min 20 (length (posts s))" by (simp add: min.commute)
  have 3: "sorted_wrt (\<lambda>p q. createdAt q \<le> createdAt p) ?r"
    using srt unfolding sorted_wrt_append by blast
  have 4: "mset (?r @ ?rest) = mset (map (populate (users s)) (posts s))"
    by simp
  have 5: "\<forall>p\<in>set ?r. \<forall>q\<in>set ?rest. createdAt q \<le> createdAt p"
    using srt unfolding sorted_wrt_append by blast
  from 1 2 3 4 5 show ?thesis by (intro exI [of _ ?r] exI [of _ ?rest]) simp
qed

theorem list_posts_latest_witness:
  "\<exists>r. list_posts st0 = (st0, json_reply 200 (JPosts r))
     \<and> map post_id r = [''0000000000000000000000c2'', ''0000000000000000000000c3'', ''0000000000000000000000c1'']
     \<and> map createdAt r = [30, 20, 10]
     \<and> length r \<le> 20
     \<and> sorted_wrt (\<lambda>p q. createdAt q \<le> createdAt p) r"
proof -
  from list_posts_latest [of st0] obtain r where
    r: "list_posts st0 = (st0, json_reply 200 (JPosts r))"
    and l: "length r \<le> 20"
    and s: "sorted_wrt (\<lambda>p q. createdAt q \<le> createdAt p) r"
    by blast
  have "list_posts st0 = (st0, json_reply 200 (JPosts (map (populate (users st0)) [post2, post3, post1])))"
    by (simp add: list_posts_def st0_def post1_def post2_def post3_def)
  with r have "r = map (populate (users st0)) [post2, post3, post1]"
    by (simp add: json_reply_def)
  then have "map post_id r = [''0000000000000000000000c2'', ''0000000000000000000000c3'', ''0000000000000000000000c1'']" and "map createdAt r = [30, 20, 10]"
    by (simp_all add: populate_def post1_def post2_def post3_def)
  with r l s show ?thesis by (intro exI [of _ r]) simp
qed

end
